theory Spec2Isabelle
  imports Main
begin

section \<open>Applicant records and the Python values they are made of\<close>

text \<open>
  An applicant record reaches the engine as the result of \<^verbatim>\<open>json.load\<close> or of Flask's
  \<^verbatim>\<open>request.get_json()\<close>: a tree of Python values. \<open>JNull\<close> is Python's \<^verbatim>\<open>None\<close>, which is
  also what \<^verbatim>\<open>get_nested_value\<close> and \<^verbatim>\<open>dict.get\<close> return for a missing key. A dict is an
  association list read with \<open>map_of\<close>; a real dict has distinct keys. Text is a list of
  8-bit characters (code points below 256). Floating-point numbers are left out.
\<close>

datatype json =
    JNull
  | JBool bool
  | JInt int
  | JStr string
  | JList "json list"
  | JDict "(string \<times> json) list"

datatype error =
    AttributeError
  | KeyError string
  | IndexError
  | TemplateUnavailable

definition bind_res :: "error + 'a \<Rightarrow> ('a \<Rightarrow> error + 'b) \<Rightarrow> error + 'b" where
  "bind_res m f = (case m of Inl e \<Rightarrow> Inl e | Inr v \<Rightarrow> f v)"

text \<open>Truth value testing: \<^verbatim>\<open>if value\<close>.\<close>

fun py_truthy :: "json \<Rightarrow> bool" where
  "py_truthy JNull = False"
| "py_truthy (JBool b) = b"
| "py_truthy (JInt i) = (i \<noteq> 0)"
| "py_truthy (JStr s) = (s \<noteq> [])"
| "py_truthy (JList xs) = (xs \<noteq> [])"
| "py_truthy (JDict kvs) = (kvs \<noteq> [])"

text \<open>\<^verbatim>\<open>obj.get(key, default)\<close>: only a dict has the method.\<close>

fun py_get :: "json \<Rightarrow> string \<Rightarrow> json \<Rightarrow> error + json" where
  "py_get (JDict kvs) key dflt = Inr (case map_of kvs key of None \<Rightarrow> dflt | Some v \<Rightarrow> v)"
| "py_get _ key dflt = Inl AttributeError"

subsection \<open>String methods\<close>

definition lower_char :: "char \<Rightarrow> char" where
  "lower_char c = (let n = (of_char c :: nat) in
     if (65 \<le> n \<and> n \<le> 90) \<or> (192 \<le> n \<and> n \<le> 214) \<or> (216 \<le> n \<and> n \<le> 222)
     then char_of (n + 32) else c)"

text \<open>
  \<^verbatim>\<open>str.upper()\<close> on the letters whose upper case is again below 256. The three
  remaining characters (\<^verbatim>\<open>0xB5\<close>, \<^verbatim>\<open>0xDF\<close>, \<^verbatim>\<open>0xFF\<close>) are left as they are; Python maps them to
  text that holds none of \<^verbatim>\<open>N\<close>, \<^verbatim>\<open>/\<close>, \<^verbatim>\<open>A\<close>, so the comparison with \<^verbatim>\<open>"N/A"\<close> is the same.
\<close>

definition upper_char :: "char \<Rightarrow> char" where
  "upper_char c = (let n = (of_char c :: nat) in
     if (97 \<le> n \<and> n \<le> 122) \<or> (224 \<le> n \<and> n \<le> 246) \<or> (248 \<le> n \<and> n \<le> 254)
     then char_of (n - 32) else c)"

definition str_lower :: "string \<Rightarrow> string" where
  "str_lower s = map lower_char s"

definition str_upper :: "string \<Rightarrow> string" where
  "str_upper s = map upper_char s"

text \<open>\<^verbatim>\<open>s.replace(" ", "_")\<close>: every single space becomes an underscore.\<close>

definition replace_space :: "string \<Rightarrow> string" where
  "replace_space s = map (\<lambda>c. if c = CHR '' '' then CHR ''_'' else c) s"

text \<open>\<^verbatim>\<open>str.isspace\<close> of one character below 256, and \<^verbatim>\<open>str.strip()\<close>.\<close>

definition is_space :: "char \<Rightarrow> bool" where
  "is_space c = (let n = (of_char c :: nat) in
     (9 \<le> n \<and> n \<le> 13) \<or> (28 \<le> n \<and> n \<le> 32) \<or> n = 133 \<or> n = 160)"

definition str_strip :: "string \<Rightarrow> string" where
  "str_strip s = rev (dropWhile is_space (rev (dropWhile is_space s)))"

text \<open>\<^verbatim>\<open>value.lower()\<close> on a value taken from the record: only a string has the method.\<close>

fun py_lower :: "json \<Rightarrow> error + string" where
  "py_lower (JStr s) = Inr (str_lower s)"
| "py_lower _ = Inl AttributeError"

text \<open>\<^verbatim>\<open>path.split(".")\<close>: the pieces between the dots, the empty ones too.\<close>

fun split_dot :: "string \<Rightarrow> string list" where
  "split_dot [] = [[]]"
| "split_dot (c # cs) =
     (if c = CHR ''.'' then [] # split_dot cs
      else (case split_dot cs of [] \<Rightarrow> [[c]] | w # ws \<Rightarrow> (c # w) # ws))"

text \<open>\<^verbatim>\<open>" ".join(parts)\<close>.\<close>

fun join_space :: "string list \<Rightarrow> string" where
  "join_space [] = []"
| "join_space [p] = p"
| "join_space (p # q # ps) = p @ '' '' @ join_space (q # ps)"

section \<open>Path resolution\<close>

text \<open>
  The loop of \<^verbatim>\<open>get_nested_value\<close> over the keys: one step per key, leaving with
  \<^verbatim>\<open>None\<close> as soon as the current value is not a dict or lacks the key.
\<close>

fun descend :: "json \<Rightarrow> string list \<Rightarrow> json" where
  "descend value [] = value"
| "descend value (key # keys) =
     (case value of
        JDict kvs \<Rightarrow> (case map_of kvs key of Some v \<Rightarrow> descend v keys | None \<Rightarrow> JNull)
      | _ \<Rightarrow> JNull)"

definition get_nested_value :: "json \<Rightarrow> string \<Rightarrow> json" where
  "get_nested_value data path = descend data (split_dot path)"

section \<open>Display name\<close>

text \<open>
  One turn of the loop of \<^verbatim>\<open>extract_full_name\<close>: \<^verbatim>\<open>if part and part.upper() != "N/A"\<close>.
  A falsy part is dropped before \<^verbatim>\<open>upper\<close> is called; a truthy part that is not a string
  has no \<^verbatim>\<open>upper\<close>.
\<close>

fun name_part :: "json \<Rightarrow> error + string list" where
  "name_part (JStr s) = Inr (if s \<noteq> [] \<and> str_upper s \<noteq> ''N/A'' then [s] else [])"
| "name_part v = (if py_truthy v then Inl AttributeError else Inr [])"

definition extract_full_name :: "json \<Rightarrow> error + string" where
  "extract_full_name data =
     bind_res (py_get data ''personal_info'' (JDict [])) (\<lambda>personal.
     bind_res (py_get personal ''first_name'' (JStr [])) (\<lambda>first_name.
     bind_res (py_get personal ''middle_name'' (JStr [])) (\<lambda>middle_name.
     bind_res (py_get personal ''last_name'' (JStr [])) (\<lambda>last_name.
     bind_res (name_part first_name) (\<lambda>p1.
     bind_res (name_part middle_name) (\<lambda>p2.
     bind_res (name_part last_name) (\<lambda>p3.
       Inr (join_space (p1 @ p2 @ p3)))))))))"

section \<open>Textual representation of values\<close>

text \<open>
  \<^verbatim>\<open>str(value)\<close>, as \<^verbatim>\<open>fill_text_fields\<close> applies it to whatever the path resolves to. A
  string is its own text. Every other value is printed as \<^verbatim>\<open>repr\<close> prints it: a string
  inside a list or a dict is quoted (with \<^verbatim>\<open>"\<close> when it holds \<^verbatim>\<open>'\<close> and no \<^verbatim>\<open>"\<close>, with \<^verbatim>\<open>'\<close>
  otherwise) and the quote, the backslash and the unprintable characters are escaped.
\<close>

definition digit_char :: "nat \<Rightarrow> char" where
  "digit_char n = (if n < 10 then char_of (48 + n) else char_of (87 + n))"

function digits :: "nat \<Rightarrow> string" where
  "digits n = (if n < 10 then [digit_char n] else digits (n div 10) @ [digit_char (n mod 10)])"
  by pat_completeness auto
termination
  by (relation "measure (\<lambda>n. n)") auto

definition str_int :: "int \<Rightarrow> string" where
  "str_int i = (if i < 0 then CHR ''-'' # digits (nat (- i)) else digits (nat i))"

definition backslash :: char where
  "backslash = CHR 0x5C"

definition hex_escape :: "nat \<Rightarrow> string" where
  "hex_escape n = [backslash, CHR ''x'', digit_char (n div 16), digit_char (n mod 16)]"

definition repr_char :: "char \<Rightarrow> char \<Rightarrow> string" where
  "repr_char quote c = (let n = (of_char c :: nat) in
     if c = quote \<or> c = backslash then [backslash, c]
     else if n = 9 then [backslash, CHR ''t'']
     else if n = 10 then [backslash, CHR ''n'']
     else if n = 13 then [backslash, CHR ''r'']
     else if n < 32 \<or> n = 127 then hex_escape n
     else if n < 127 then [c]
     else if n \<le> 160 \<or> n = 173 then hex_escape n
     else [c])"

definition repr_str :: "string \<Rightarrow> string" where
  "repr_str s = (let quote = (if CHR 0x27 \<in> set s \<and> CHR 0x22 \<notin> set s then CHR 0x22 else CHR 0x27)
     in quote # concat (map (repr_char quote) s) @ [quote])"

fun join_comma :: "string list \<Rightarrow> string" where
  "join_comma [] = []"
| "join_comma [p] = p"
| "join_comma (p # q # ps) = p @ '', '' @ join_comma (q # ps)"

fun py_repr :: "json \<Rightarrow> string"
  and repr_list :: "json list \<Rightarrow> string list"
  and repr_items :: "(string \<times> json) list \<Rightarrow> string list" where
  "py_repr JNull = ''None''"
| "py_repr (JBool b) = (if b then ''True'' else ''False'')"
| "py_repr (JInt i) = str_int i"
| "py_repr (JStr s) = repr_str s"
| "py_repr (JList xs) = ''['' @ join_comma (repr_list xs) @ '']''"
| "py_repr (JDict kvs) = ''{'' @ join_comma (repr_items kvs) @ ''}''"
| "repr_list [] = []"
| "repr_list (x # xs) = py_repr x # repr_list xs"
| "repr_items [] = []"
| "repr_items ((k, v) # kvs) = (repr_str k @ '': '' @ py_repr v) # repr_items kvs"

fun py_str :: "json \<Rightarrow> string" where
  "py_str (JStr s) = s"
| "py_str v = py_repr v"

section \<open>The layout schema\<close>

text \<open>
  The tables of \<^verbatim>\<open>field_config.py\<close>, each a dict in the order it is written. The engine
  reads them as module globals; here they travel as one \<open>schema\<close>, and \<open>LAYOUT\<close> is the
  schema of the repository.
\<close>

record schema =
  field_coordinates :: "(string \<times> (int \<times> int)) list"
  checkbox_mappings :: "(string \<times> (string \<times> string) list) list"
  text_field_mappings :: "(string \<times> string) list"

definition FONT_NAME :: string where
  "FONT_NAME = ''helv''"

definition FONT_SIZE :: int where
  "FONT_SIZE = 9"

definition CHECKBOX_CHAR :: string where
  "CHECKBOX_CHAR = ''X''"

definition CHECKBOX_FONT_SIZE :: int where
  "CHECKBOX_FONT_SIZE = 10"

definition FIELD_COORDINATES :: "(string \<times> (int \<times> int)) list" where
  "FIELD_COORDINATES = [
     (''checkbox_adult'', (33, 152)),
     (''checkbox_minor'', (82, 152)),
     (''last_name'', (35, 180)),
     (''first_name'', (315, 180)),
     (''middle_name'', (35, 214)),
     (''place_of_birth'', (315, 214)),
     (''dob_day'', (45, 253)),
     (''dob_month'', (100, 253)),
     (''dob_year'', (165, 253)),
     (''checkbox_male'', (407, 254)),
     (''checkbox_female'', (447, 254)),
     (''national_id'', (380, 270)),
     (''checkbox_single'', (110, 303)),
     (''checkbox_married'', (182, 303)),
     (''checkbox_widow'', (259, 303)),
     (''checkbox_legally_separated'', (342, 303)),
     (''checkbox_annulled'', (454, 303)),
     (''present_address'', (92, 318)),
     (''contact_no'', (75, 333)),
     (''email'', (335, 333)),
     (''spouse_name'', (90, 348)),
     (''spouse_citizenship'', (355, 348)),
     (''father_name'', (86, 362)),
     (''father_citizenship'', (351, 362)),
     (''mother_maiden_name'', (115, 376)),
     (''mother_citizenship'', (353, 376)),
     (''checkbox_birth'', (132, 395)),
     (''checkbox_election'', (189, 395)),
     (''checkbox_naturalization'', (254, 395)),
     (''checkbox_ra9225'', (337, 395)),
     (''checkbox_others_citizenship'', (409, 395)),
     (''others_citizenship_text'', (455, 394)),
     (''checkbox_foreign_citizenship_yes'', (170, 416)),
     (''checkbox_foreign_citizenship_no'', (193, 416)),
     (''foreign_citizenship_country'', (145, 424)),
     (''checkbox_foreign_mode_birth'', (95, 435)),
     (''checkbox_foreign_mode_naturalization'', (123, 435)),
     (''checkbox_foreign_mode_others'', (177, 435)),
     (''foreign_mode_others_text'', (220, 433)),
     (''checkbox_military_yes'', (409, 413)),
     (''checkbox_military_no'', (438, 413)),
     (''military_country'', (400, 421)),
     (''checkbox_renounced_yes'', (436, 439)),
     (''checkbox_renounced_no'', (465, 439)),
     (''checkbox_foreign_passport_yes'', (166, 459)),
     (''checkbox_foreign_passport_no'', (194, 459)),
     (''foreign_passport_country'', (145, 467)),
     (''checkbox_ph_passport_yes'', (439, 454)),
     (''checkbox_ph_passport_no'', (468, 454)),
     (''ph_passport_number'', (415, 462)),
     (''ph_passport_date_of_issue'', (340, 472)),
     (''ph_passport_place_of_issue'', (470, 472)),
     (''accompanied_by'', (115, 633)),
     (''minor_relationship'', (155, 642)),
     (''accompanying_mobile'', (170, 652)),
     (''emergency_name'', (420, 633)),
     (''emergency_mobile'', (340, 642)),
     (''emergency_relationship'', (480, 642)),
     (''emergency_address'', (365, 652))]"

definition CHECKBOX_MAPPINGS :: "(string \<times> (string \<times> string) list) list" where
  "CHECKBOX_MAPPINGS = [
     (''applicant_category'', [(''adult'', ''checkbox_adult''), (''minor'', ''checkbox_minor'')]),
     (''sex'', [(''male'', ''checkbox_male''), (''female'', ''checkbox_female'')]),
     (''civil_status'', [(''single'', ''checkbox_single''), (''married'', ''checkbox_married''), (''widow'', ''checkbox_widow''), (''widower'', ''checkbox_widow''), (''legally_separated'', ''checkbox_legally_separated''), (''annulled'', ''checkbox_annulled'')]),
     (''acquired_by'', [(''birth'', ''checkbox_birth''), (''election'', ''checkbox_election''), (''naturalization'', ''checkbox_naturalization''), (''ra9225'', ''checkbox_ra9225''), (''r.a. 9225'', ''checkbox_ra9225''), (''others'', ''checkbox_others_citizenship'')]),
     (''foreign_citizenship_mode'', [(''birth'', ''checkbox_foreign_mode_birth''), (''naturalization'', ''checkbox_foreign_mode_naturalization''), (''others'', ''checkbox_foreign_mode_others'')])]"

definition TEXT_FIELD_MAPPINGS :: "(string \<times> string) list" where
  "TEXT_FIELD_MAPPINGS = [
     (''personal_info.last_name'', ''last_name''),
     (''personal_info.first_name'', ''first_name''),
     (''personal_info.middle_name'', ''middle_name''),
     (''personal_info.place_of_birth'', ''place_of_birth''),
     (''personal_info.date_of_birth.day'', ''dob_day''),
     (''personal_info.date_of_birth.month'', ''dob_month''),
     (''personal_info.date_of_birth.year'', ''dob_year''),
     (''personal_info.national_id'', ''national_id''),
     (''personal_info.present_address'', ''present_address''),
     (''personal_info.contact_no'', ''contact_no''),
     (''personal_info.email'', ''email''),
     (''family_info.spouse_name'', ''spouse_name''),
     (''family_info.spouse_citizenship'', ''spouse_citizenship''),
     (''family_info.father_name'', ''father_name''),
     (''family_info.father_citizenship'', ''father_citizenship''),
     (''family_info.mother_maiden_name'', ''mother_maiden_name''),
     (''family_info.mother_citizenship'', ''mother_citizenship''),
     (''citizenship_info.foreign_citizenship.country'', ''foreign_citizenship_country''),
     (''citizenship_info.foreign_military.country'', ''military_country''),
     (''citizenship_info.foreign_passport.country'', ''foreign_passport_country''),
     (''citizenship_info.philippine_passport.number'', ''ph_passport_number''),
     (''citizenship_info.philippine_passport.date_of_issue'', ''ph_passport_date_of_issue''),
     (''citizenship_info.philippine_passport.place_of_issue'', ''ph_passport_place_of_issue''),
     (''minor_info.accompanied_by'', ''accompanied_by''),
     (''minor_info.relationship'', ''minor_relationship''),
     (''minor_info.accompanying_mobile'', ''accompanying_mobile''),
     (''emergency_contact.name'', ''emergency_name''),
     (''emergency_contact.mobile'', ''emergency_mobile''),
     (''emergency_contact.relationship'', ''emergency_relationship''),
     (''emergency_contact.address'', ''emergency_address'')]"

definition LAYOUT :: schema where
  "LAYOUT = \<lparr>field_coordinates = FIELD_COORDINATES, checkbox_mappings = CHECKBOX_MAPPINGS,
     text_field_mappings = TEXT_FIELD_MAPPINGS\<rparr>"

section \<open>The page and the two drawing operations\<close>

text \<open>
  The page is what has been drawn on it, in the order of the calls of PyMuPDF's
  \<^verbatim>\<open>page.insert_text\<close>: the point, the text, the font and its size (the colour is always
  black). \<open>stamps_at\<close> is what a reader finds at one point of the page.
\<close>

record stamp =
  st_at :: "int \<times> int"
  st_text :: string
  st_font :: string
  st_size :: int

type_synonym page = "stamp list"

definition stamps_at :: "page \<Rightarrow> int \<times> int \<Rightarrow> stamp list" where
  "stamps_at page c = filter (\<lambda>s. st_at s = c) page"

definition insert_text :: "page \<Rightarrow> int \<Rightarrow> int \<Rightarrow> string \<Rightarrow> int \<Rightarrow> page" where
  "insert_text page x y txt fontsize =
     (if txt \<noteq> [] \<and> str_strip txt \<noteq> []
      then page @ [\<lparr>st_at = (x, y), st_text = txt, st_font = FONT_NAME, st_size = fontsize\<rparr>]
      else page)"

definition insert_checkbox :: "page \<Rightarrow> int \<Rightarrow> int \<Rightarrow> page" where
  "insert_checkbox page x y =
     page @ [\<lparr>st_at = (x, y), st_text = CHECKBOX_CHAR, st_font = FONT_NAME, st_size = CHECKBOX_FONT_SIZE\<rparr>]"

section \<open>Scalar fields\<close>

text \<open>
  The loop of \<^verbatim>\<open>fill_text_fields\<close> over the items of the text table:
  \<^verbatim>\<open>if value and coord_key in FIELD_COORDINATES\<close>, then \<^verbatim>\<open>insert_text\<close> of \<^verbatim>\<open>str(value)\<close> with the
  default size.
\<close>

fun fill_text_loop :: "schema \<Rightarrow> json \<Rightarrow> page \<Rightarrow> (string \<times> string) list \<Rightarrow> page" where
  "fill_text_loop sch data page [] = page"
| "fill_text_loop sch data page ((json_path, coord_key) # items) =
     (let v = get_nested_value data json_path in
      fill_text_loop sch data
        (case map_of (field_coordinates sch) coord_key of
           Some (x, y) \<Rightarrow> if py_truthy v then insert_text page x y (py_str v) FONT_SIZE else page
         | None \<Rightarrow> page)
        items)"

definition fill_text_fields_in :: "schema \<Rightarrow> page \<Rightarrow> json \<Rightarrow> page" where
  "fill_text_fields_in sch page data = fill_text_loop sch data page (text_field_mappings sch)"

definition fill_text_fields :: "page \<Rightarrow> json \<Rightarrow> page" where
  "fill_text_fields = fill_text_fields_in LAYOUT"

section \<open>Checkboxes\<close>

text \<open>
  \<open>mark_field\<close> is \<^verbatim>\<open>if key in FIELD_COORDINATES: insert_checkbox(...)\<close>. \<open>mark_group\<close> is the
  lookup that \<^verbatim>\<open>fill_checkboxes\<close> writes out for each group:
  \<^verbatim>\<open>if v in CHECKBOX_MAPPINGS[group]\<close>, which raises \<^verbatim>\<open>KeyError\<close> when the table has no such
  group, then \<open>mark_field\<close> of the field the value is mapped to.
\<close>

definition mark_field :: "schema \<Rightarrow> string \<Rightarrow> page \<Rightarrow> page" where
  "mark_field sch key page =
     (case map_of (field_coordinates sch) key of
        Some (x, y) \<Rightarrow> insert_checkbox page x y
      | None \<Rightarrow> page)"

definition mark_group :: "schema \<Rightarrow> string \<Rightarrow> string \<Rightarrow> page \<Rightarrow> error + page" where
  "mark_group sch grp v page =
     (case map_of (checkbox_mappings sch) grp of
        None \<Rightarrow> Inl (KeyError grp)
      | Some table \<Rightarrow>
          Inr (case map_of table v of
                 Some checkbox_key \<Rightarrow> mark_field sch checkbox_key page
               | None \<Rightarrow> page))"

text \<open>The blocks of \<^verbatim>\<open>fill_checkboxes\<close>, each on the section it reads.\<close>

definition applicant_category_block :: "schema \<Rightarrow> page \<Rightarrow> json \<Rightarrow> error + page" where
  "applicant_category_block sch page app_type =
     bind_res (bind_res (py_get app_type ''applicant_category'' (JStr [])) py_lower) (\<lambda>category.
       mark_group sch ''applicant_category'' category page)"

definition processing_type_block :: "schema \<Rightarrow> page \<Rightarrow> json \<Rightarrow> error + page" where
  "processing_type_block sch page app_type =
     bind_res (bind_res (py_get app_type ''processing_type'' (JStr [])) py_lower) (\<lambda>proc_type.
       mark_group sch ''processing_type'' proc_type page)"

definition sex_block :: "schema \<Rightarrow> page \<Rightarrow> json \<Rightarrow> error + page" where
  "sex_block sch page personal =
     bind_res (bind_res (py_get personal ''sex'' (JStr [])) py_lower) (\<lambda>sex.
       mark_group sch ''sex'' sex page)"

definition civil_status_block :: "schema \<Rightarrow> page \<Rightarrow> json \<Rightarrow> error + page" where
  "civil_status_block sch page personal =
     bind_res (bind_res (py_get personal ''civil_status'' (JStr [])) py_lower) (\<lambda>lowered.
       mark_group sch ''civil_status'' (replace_space lowered) page)"

definition acquired_by_block :: "schema \<Rightarrow> page \<Rightarrow> json \<Rightarrow> error + page" where
  "acquired_by_block sch page citizenship =
     bind_res (bind_res (py_get citizenship ''acquired_by'' (JStr [])) py_lower) (\<lambda>acquired_by.
       mark_group sch ''acquired_by'' acquired_by page)"

definition foreign_citizenship_block :: "schema \<Rightarrow> page \<Rightarrow> json \<Rightarrow> error + page" where
  "foreign_citizenship_block sch page citizenship =
     bind_res (py_get citizenship ''foreign_citizenship'' (JDict [])) (\<lambda>foreign_cit.
     bind_res (py_get foreign_cit ''acquired'' JNull) (\<lambda>acquired.
       if py_truthy acquired then
         bind_res (bind_res (py_get foreign_cit ''mode'' (JStr [])) py_lower) (\<lambda>mode.
           mark_group sch ''foreign_citizenship_mode'' mode
             (mark_field sch ''checkbox_foreign_citizenship_yes'' page))
       else Inr (mark_field sch ''checkbox_foreign_citizenship_no'' page)))"

definition foreign_military_block :: "schema \<Rightarrow> page \<Rightarrow> json \<Rightarrow> error + page" where
  "foreign_military_block sch page citizenship =
     bind_res (py_get citizenship ''foreign_military'' (JDict [])) (\<lambda>foreign_mil.
     bind_res (py_get foreign_mil ''served'' JNull) (\<lambda>served.
       Inr (if py_truthy served then mark_field sch ''checkbox_military_yes'' page
            else mark_field sch ''checkbox_military_no'' page)))"

definition renounced_block :: "schema \<Rightarrow> page \<Rightarrow> json \<Rightarrow> error + page" where
  "renounced_block sch page citizenship =
     bind_res (py_get citizenship ''renounced_philippine_citizenship'' JNull) (\<lambda>renounced.
       Inr (if py_truthy renounced then mark_field sch ''checkbox_renounced_yes'' page
            else mark_field sch ''checkbox_renounced_no'' page))"

definition foreign_passport_block :: "schema \<Rightarrow> page \<Rightarrow> json \<Rightarrow> error + page" where
  "foreign_passport_block sch page citizenship =
     bind_res (py_get citizenship ''foreign_passport'' (JDict [])) (\<lambda>foreign_pass.
     bind_res (py_get foreign_pass ''issued'' JNull) (\<lambda>issued.
       Inr (if py_truthy issued then mark_field sch ''checkbox_foreign_passport_yes'' page
            else mark_field sch ''checkbox_foreign_passport_no'' page)))"

definition ph_passport_block :: "schema \<Rightarrow> page \<Rightarrow> json \<Rightarrow> error + page" where
  "ph_passport_block sch page citizenship =
     bind_res (py_get citizenship ''philippine_passport'' (JDict [])) (\<lambda>ph_pass.
     bind_res (py_get ph_pass ''issued'' JNull) (\<lambda>issued.
       Inr (if py_truthy issued then mark_field sch ''checkbox_ph_passport_yes'' page
            else mark_field sch ''checkbox_ph_passport_no'' page)))"

text \<open>\<^verbatim>\<open>fill_checkboxes\<close>: the blocks in the order of the source, stopping at the first error.\<close>

definition fill_checkboxes_in :: "schema \<Rightarrow> page \<Rightarrow> json \<Rightarrow> error + page" where
  "fill_checkboxes_in sch page data =
     bind_res (py_get data ''application_type'' (JDict [])) (\<lambda>app_type.
     bind_res (applicant_category_block sch page app_type) (\<lambda>page1.
     bind_res (processing_type_block sch page1 app_type) (\<lambda>page2.
     bind_res (py_get data ''personal_info'' (JDict [])) (\<lambda>personal.
     bind_res (sex_block sch page2 personal) (\<lambda>page3.
     bind_res (civil_status_block sch page3 personal) (\<lambda>page4.
     bind_res (py_get data ''citizenship_info'' (JDict [])) (\<lambda>citizenship.
     bind_res (acquired_by_block sch page4 citizenship) (\<lambda>page5.
     bind_res (foreign_citizenship_block sch page5 citizenship) (\<lambda>page6.
     bind_res (foreign_military_block sch page6 citizenship) (\<lambda>page7.
     bind_res (renounced_block sch page7 citizenship) (\<lambda>page8.
     bind_res (foreign_passport_block sch page8 citizenship) (\<lambda>page9.
       ph_passport_block sch page9 citizenship))))))))))))"

definition fill_checkboxes :: "page \<Rightarrow> json \<Rightarrow> error + page" where
  "fill_checkboxes = fill_checkboxes_in LAYOUT"

section \<open>Generating the filled form\<close>

text \<open>
  A document is its pages; \<^verbatim>\<open>fitz.open\<close> finds it under the template path or fails, and
  \<^verbatim>\<open>doc[0]\<close> needs a first page. The result carries the state of the template handle when
  the call ends, and either the error that left the function or the pair of the filled
  document, which \<^verbatim>\<open>doc.tobytes()\<close> serialises, and the display name.
\<close>

datatype handle = Unopened | Opened | Closed

type_synonym document = "page list"

definition generate_filled_pdf_bytes_in ::
  "schema \<Rightarrow> (string \<Rightarrow> document option) \<Rightarrow> json \<Rightarrow> string \<Rightarrow> handle \<times> (error + document \<times> string)" where
  "generate_filled_pdf_bytes_in sch files data template_path =
     (case files template_path of
        None \<Rightarrow> (Unopened, Inl TemplateUnavailable)
      | Some doc \<Rightarrow>
          (case doc of
             [] \<Rightarrow> (Opened, Inl IndexError)
           | page # rest \<Rightarrow>
               (case fill_checkboxes_in sch page data of
                  Inl e \<Rightarrow> (Opened, Inl e)
                | Inr page1 \<Rightarrow>
                    (let page2 = fill_text_fields_in sch page1 data;
                         pdf_bytes = page2 # rest
                     in case extract_full_name data of
                          Inl e \<Rightarrow> (Closed, Inl e)
                        | Inr full_name \<Rightarrow> (Closed, Inr (pdf_bytes, full_name))))))"

definition generate_filled_pdf_bytes ::
  "(string \<Rightarrow> document option) \<Rightarrow> json \<Rightarrow> string \<Rightarrow> handle \<times> (error + document \<times> string)" where
  "generate_filled_pdf_bytes = generate_filled_pdf_bytes_in LAYOUT"

section \<open>Vocabulary of the statements\<close>

text \<open>
  \<open>is_dict\<close> is \<^verbatim>\<open>isinstance(value, dict)\<close>. A name field is plain when it is missing or
  bound to a string; \<open>name_text\<close> is its text, empty when it is missing. \<open>absent_name\<close>
  follows the words of the specification: the empty string or the sentinel \<^verbatim>\<open>N/A\<close> in
  any letter case. \<open>names_record\<close> builds a record with the given identity section.
\<close>

definition plain_name :: "(string \<times> json) list \<Rightarrow> string \<Rightarrow> bool" where
  "plain_name kvs f = (case map_of kvs f of None \<Rightarrow> True | Some (JStr s) \<Rightarrow> True | Some _ \<Rightarrow> False)"

definition name_text :: "(string \<times> json) list \<Rightarrow> string \<Rightarrow> string" where
  "name_text kvs f = (case map_of kvs f of Some (JStr s) \<Rightarrow> s | _ \<Rightarrow> [])"

definition absent_name :: "string \<Rightarrow> bool" where
  "absent_name s = (s = [] \<or> s = ''N/A'' \<or> s = ''N/a'' \<or> s = ''n/A'' \<or> s = ''n/a'')"

fun is_dict :: "json \<Rightarrow> bool" where
  "is_dict (JDict kvs) = True"
| "is_dict _ = False"

definition names_record :: "(string \<times> json) list \<Rightarrow> json" where
  "names_record kvs = JDict [(''personal_info'', JDict kvs)]"

text \<open>
  \<open>with_processing_type\<close> is a schema with a group \<^verbatim>\<open>processing_type\<close> put in front of its
  checkbox table. \<open>spec_normalize\<close> is the normalisation of group values in the words of
  the specification: lowercase, trim, spaces to underscores.
\<close>

definition with_processing_type :: "schema \<Rightarrow> (string \<times> string) list \<Rightarrow> schema" where
  "with_processing_type sch table =
     sch\<lparr>checkbox_mappings := (''processing_type'', table) # checkbox_mappings sch\<rparr>"

definition spec_normalize :: "string \<Rightarrow> string" where
  "spec_normalize s = replace_space (str_strip (str_lower s))"

definition one_page :: "string \<Rightarrow> document option" where
  "one_page template_path = Some [[]]"

text \<open>
  \<open>entry_stamps\<close> is what one item of the text table adds at the point \<open>c\<close>: the text of
  the value found under the item's path, when the item's field has the coordinate \<open>c\<close>, the
  value is truthy and its text is not blank.
\<close>

definition entry_stamps :: "schema \<Rightarrow> json \<Rightarrow> int \<times> int \<Rightarrow> string \<times> string \<Rightarrow> stamp list" where
  "entry_stamps sch data c item =
     (case map_of (field_coordinates sch) (snd item) of
        None \<Rightarrow> []
      | Some xy \<Rightarrow>
          (let v = get_nested_value data (fst item) in
           if xy = c \<and> py_truthy v \<and> str_strip (py_str v) \<noteq> []
           then [\<lparr>st_at = xy, st_text = py_str v, st_font = FONT_NAME, st_size = FONT_SIZE\<rparr>]
           else []))"

section \<open>Properties\<close>

subsection \<open>Characters and text\<close>

lemma split_dot_nonempty: "split_dot p \<noteq> []"
  by (induction p) (auto split: list.splits)

lemma of_char_upper_char:
  "(of_char (upper_char c) :: nat) =
     (if (97 \<le> (of_char c :: nat) \<and> (of_char c :: nat) \<le> 122) \<or> (224 \<le> (of_char c :: nat) \<and> (of_char c :: nat) \<le> 246)
         \<or> (248 \<le> (of_char c :: nat) \<and> (of_char c :: nat) \<le> 254)
      then of_char c - 32 else of_char c)"
proof -
  have "\<And>n::nat. n < 256 \<Longrightarrow> (n - 32) mod 256 = n - 32" by simp
  from this [of "of_char c"] have "((of_char c :: nat) - 32) mod 256 = of_char c - 32" by simp
  then show ?thesis by (simp add: upper_char_def Let_def)
qed

lemma char_eq_code: "c = d \<longleftrightarrow> (of_char c :: nat) = of_char d"
  by simp

lemma upper_char_N: "upper_char c = CHR ''N'' \<longleftrightarrow> c = CHR ''N'' \<or> c = CHR ''n''"
proof -
  have 1: "upper_char c = CHR ''N'' \<longleftrightarrow> (of_char (upper_char c) :: nat) = 78"
    by (subst char_eq_code) simp
  have 2: "c = CHR ''N'' \<longleftrightarrow> (of_char c :: nat) = 78"
    by (subst char_eq_code) simp
  have 3: "c = CHR ''n'' \<longleftrightarrow> (of_char c :: nat) = 110"
    by (subst char_eq_code) simp
  show ?thesis unfolding 1 2 3 of_char_upper_char by (simp split: if_splits) arith
qed

lemma upper_char_A: "upper_char c = CHR ''A'' \<longleftrightarrow> c = CHR ''A'' \<or> c = CHR ''a''"
proof -
  have 1: "upper_char c = CHR ''A'' \<longleftrightarrow> (of_char (upper_char c) :: nat) = 65"
    by (subst char_eq_code) simp
  have 2: "c = CHR ''A'' \<longleftrightarrow> (of_char c :: nat) = 65"
    by (subst char_eq_code) simp
  have 3: "c = CHR ''a'' \<longleftrightarrow> (of_char c :: nat) = 97"
    by (subst char_eq_code) simp
  show ?thesis unfolding 1 2 3 of_char_upper_char by (simp split: if_splits) arith
qed

lemma upper_char_slash: "upper_char c = CHR ''/'' \<longleftrightarrow> c = CHR ''/''"
proof -
  have 1: "upper_char c = CHR ''/'' \<longleftrightarrow> (of_char (upper_char c) :: nat) = 47"
    by (subst char_eq_code) simp
  have 2: "c = CHR ''/'' \<longleftrightarrow> (of_char c :: nat) = 47"
    by (subst char_eq_code) simp
  show ?thesis unfolding 1 2 of_char_upper_char by (simp split: if_splits) arith
qed

lemma str_upper_NA:
  "str_upper s = ''N/A'' \<longleftrightarrow> s = ''N/A'' \<or> s = ''N/a'' \<or> s = ''n/A'' \<or> s = ''n/a''"
proof -
  have "str_upper s = ''N/A'' \<longleftrightarrow>
        (\<exists>a b c. s = [a, b, c] \<and> upper_char a = CHR ''N'' \<and> upper_char b = CHR ''/'' \<and> upper_char c = CHR ''A'')"
    by (auto simp: str_upper_def map_eq_Cons_conv)
  also have "\<dots> \<longleftrightarrow> s = ''N/A'' \<or> s = ''N/a'' \<or> s = ''n/A'' \<or> s = ''n/a''"
    unfolding upper_char_N upper_char_A upper_char_slash by auto
  finally show ?thesis .
qed

lemma name_part_plain:
  "plain_name kvs f \<Longrightarrow>
   name_part (case map_of kvs f of None \<Rightarrow> JStr [] | Some v \<Rightarrow> v) =
     Inr (filter (\<lambda>s. \<not> absent_name s) [name_text kvs f])"
  by (auto simp: plain_name_def name_text_def absent_name_def str_upper_NA
           split: option.splits json.splits)

lemma extract_full_name_section:
  assumes "plain_name kvs ''first_name''" "plain_name kvs ''middle_name''" "plain_name kvs ''last_name''"
    and "py_get data ''personal_info'' (JDict []) = Inr (JDict kvs)"
  shows "extract_full_name data =
     Inr (join_space (filter (\<lambda>s. \<not> absent_name s)
       [name_text kvs ''first_name'', name_text kvs ''middle_name'', name_text kvs ''last_name'']))"
  using assms(4) name_part_plain [OF assms(1)] name_part_plain [OF assms(2)] name_part_plain [OF assms(3)]
  by (simp add: extract_full_name_def bind_res_def)

lemma char_of_eq_code: "char_of (n::nat) = c \<longleftrightarrow> n mod 256 = of_char c"
  by (simp add: char_of_eq_iff take_bit_eq_mod)

lemma str_upper_examples:
  "str_upper ''Maria'' = ''MARIA''" "str_upper ''Cruz'' = ''CRUZ''"
  "str_upper ''Santos'' = ''SANTOS''" "str_upper ''Reyes'' = ''REYES''"
  "str_upper ''N/A'' = ''N/A''" "str_upper ''n/a'' = ''N/A''" "str_upper ''N/a'' = ''N/A''"
  by (simp_all add: str_upper_def upper_char_def char_of_eq_code)

subsection \<open>The display name\<close>

text \<open>
  Claim C5. \<^verbatim>\<open>extract_full_name\<close> reads the first, middle and last name of the identity
  section \<^verbatim>\<open>personal_info\<close> (an absent section reads as an empty one), drops every name
  that is the empty string or \<^verbatim>\<open>N/A\<close> in any letter case, and joins what remains with one
  space in the order first, middle, last; with nothing left the result is the empty
  string. The examples of the specification follow. The names are strings or missing,
  as the claim has them.
\<close>

theorem extract_full_name_joins:
  "(plain_name kvs ''first_name'' \<and> plain_name kvs ''middle_name'' \<and> plain_name kvs ''last_name'' \<and>
    (map_of secs ''personal_info'' = Some (JDict kvs) \<or> map_of secs ''personal_info'' = None \<and> kvs = [])
    \<longrightarrow> extract_full_name (JDict secs) =
          Inr (join_space (filter (\<lambda>s. \<not> absent_name s)
            [name_text kvs ''first_name'', name_text kvs ''middle_name'', name_text kvs ''last_name''])))
   \<and> extract_full_name (names_record [(''first_name'', JStr ''Maria''), (''middle_name'', JStr ''Cruz''),
          (''last_name'', JStr ''Santos'')]) = Inr ''Maria Cruz Santos''
   \<and> extract_full_name (names_record [(''first_name'', JStr ''Maria''), (''last_name'', JStr ''Santos'')])
        = Inr ''Maria Santos''
   \<and> extract_full_name (names_record [(''first_name'', JStr ''Maria''), (''middle_name'', JStr ''N/A''),
          (''last_name'', JStr ''Santos'')]) = Inr ''Maria Santos''
   \<and> extract_full_name (names_record [(''first_name'', JStr ''N/A''), (''last_name'', JStr ''Reyes'')])
        = Inr ''Reyes''
   \<and> extract_full_name (names_record [(''first_name'', JStr ''n/a''), (''middle_name'', JStr []),
          (''last_name'', JStr ''N/a'')]) = Inr []
   \<and> extract_full_name (JDict []) = Inr []"
proof -
  have g: "extract_full_name (JDict secs) =
          Inr (join_space (filter (\<lambda>s. \<not> absent_name s)
            [name_text kvs ''first_name'', name_text kvs ''middle_name'', name_text kvs ''last_name'']))"
    if "plain_name kvs ''first_name''" "plain_name kvs ''middle_name''" "plain_name kvs ''last_name''"
      "map_of secs ''personal_info'' = Some (JDict kvs) \<or> map_of secs ''personal_info'' = None \<and> kvs = []"
  proof -
    from that(4) have "py_get (JDict secs) ''personal_info'' (JDict []) = Inr (JDict kvs)"
      by auto
    with that(1-3) show ?thesis by (rule extract_full_name_section)
  qed
  show ?thesis
    using g by (simp add: str_upper_examples bind_res_def extract_full_name_def names_record_def)
qed

theorem extract_full_name_joins_witness:
  "extract_full_name (JDict [(''personal_info'',
      JDict [(''first_name'', JStr ''Ana''), (''last_name'', JStr ''n/a'')])]) = Inr ''Ana''"
proof -
  let ?kvs = "[(''first_name'', JStr ''Ana''), (''last_name'', JStr ''n/a'')]"
  let ?secs = "[(''personal_info'', JDict ?kvs)]"
  have h: "plain_name ?kvs ''first_name'' \<and> plain_name ?kvs ''middle_name'' \<and> plain_name ?kvs ''last_name'' \<and>
    (map_of ?secs ''personal_info'' = Some (JDict ?kvs) \<or> map_of ?secs ''personal_info'' = None \<and> ?kvs = [])"
    by (simp add: plain_name_def)
  from extract_full_name_joins [of ?kvs ?secs, THEN conjunct1, rule_format, OF h]
  show ?thesis by (simp add: name_text_def absent_name_def)
qed

subsection \<open>Path resolution\<close>

lemma split_dot_dot_free: "CHR ''.'' \<notin> set key \<Longrightarrow> split_dot key = [key]"
  by (induction key) auto

lemma split_dot_append: "split_dot (path @ CHR ''.'' # rest) = split_dot path @ split_dot rest"
proof (induction path)
  case Nil
  show ?case by simp
next
  case (Cons c path)
  obtain w ws where "split_dot path = w # ws"
    using split_dot_nonempty [of path] by (cases "split_dot path") auto
  with Cons show ?case by simp
qed

lemma descend_JNull: "descend JNull keys = JNull"
  by (cases keys) simp_all

lemma descend_not_dict: "\<not> is_dict v \<Longrightarrow> keys \<noteq> [] \<Longrightarrow> descend v keys = JNull"
  by (cases keys; cases v) simp_all

lemma descend_append: "descend v (keys @ keys2) = descend (descend v keys) keys2"
proof (induction keys arbitrary: v)
  case Nil
  show ?case by simp
next
  case (Cons key keys)
  show ?case
    by (cases v) (simp_all add: Cons.IH descend_JNull split: option.splits)
qed

text \<open>
  Claim C6. \<^verbatim>\<open>get_nested_value\<close> goes down the record one path segment at a time. On a
  path of one segment it is one lookup: the value bound to the key when the record is a dict
  that has the key, \<^verbatim>\<open>None\<close> otherwise. On a path \<^verbatim>\<open>path.rest\<close> it is the resolution of \<^verbatim>\<open>rest\<close>
  in what \<^verbatim>\<open>path\<close> resolves to. So as soon as the value reached is not a dict, every deeper
  path is absent: a path into a record that is not a dict, and \<^verbatim>\<open>a.b.c\<close> where \<^verbatim>\<open>a.b\<close> is a
  string. The function has no failing branch: its result is a value for every record and
  every path.
\<close>

theorem get_nested_value_absent:
  "(CHR ''.'' \<notin> set key \<longrightarrow>
      get_nested_value v key =
        (case v of
           JDict kvs \<Rightarrow> (case map_of kvs key of Some w \<Rightarrow> w | None \<Rightarrow> JNull)
         | _ \<Rightarrow> JNull))
   \<and> get_nested_value v (path @ ''.'' @ rest) = get_nested_value (get_nested_value v path) rest
   \<and> (\<not> is_dict (get_nested_value v path) \<longrightarrow> get_nested_value v (path @ ''.'' @ rest) = JNull)
   \<and> (\<not> is_dict v \<longrightarrow> get_nested_value v path = JNull)
   \<and> get_nested_value (JDict [(''a'', JDict [(''b'', JStr s)])]) ''a.b.c'' = JNull"
proof -
  have ne: "split_dot p \<noteq> []" for p
    by (rule split_dot_nonempty)
  have 1: "get_nested_value v key =
        (case v of
           JDict kvs \<Rightarrow> (case map_of kvs key of Some w \<Rightarrow> w | None \<Rightarrow> JNull)
         | _ \<Rightarrow> JNull)" if "CHR ''.'' \<notin> set key"
    using that by (simp add: get_nested_value_def split_dot_dot_free split: json.splits option.splits)
  have 2: "get_nested_value u (p @ ''.'' @ r) = get_nested_value (get_nested_value u p) r" for u p r
    by (simp add: get_nested_value_def split_dot_append descend_append)
  have 3: "get_nested_value u p = JNull" if "\<not> is_dict u" for u p
    unfolding get_nested_value_def using that ne [of p] by (rule descend_not_dict)
  have 4: "get_nested_value v (path @ ''.'' @ rest) = JNull" if "\<not> is_dict (get_nested_value v path)"
    unfolding 2 using that by (rule 3)
  have 5: "get_nested_value (JDict [(''a'', JDict [(''b'', JStr s)])]) ''a.b.c'' = JNull"
    by (simp add: get_nested_value_def)
  from 1 2 [of v path rest] 3 [of v path] 4 5 show ?thesis by blast
qed

theorem get_nested_value_absent_witness:
  "get_nested_value (JDict [(''a'', JStr ''s''), (''a.b'', JInt 2)]) ''a'' = JStr ''s''
   \<and> get_nested_value (JDict [(''a'', JStr ''s''), (''a.b'', JInt 2)]) ''a.b'' = JNull
   \<and> get_nested_value (JDict [(''a'', JDict [(''b'', JInt 2)])]) ''a.b'' = JInt 2
   \<and> get_nested_value (JStr ''x'') ''personal_info.last_name'' = JNull"
proof -
  let ?flat = "JDict [(''a'', JStr ''s''), (''a.b'', JInt 2)]"
  let ?nested = "JDict [(''a'', JDict [(''b'', JInt 2)])]"
  have k: "CHR ''.'' \<notin> set ''a''" "CHR ''.'' \<notin> set ''b''" by simp_all
  from get_nested_value_absent [where key = "''a''" and v = ?flat] k(1)
  have 1: "get_nested_value ?flat ''a'' = JStr ''s''" by simp
  from get_nested_value_absent [where v = ?flat and path = "''a''" and rest = "''b''"]
  have "\<not> is_dict (get_nested_value ?flat ''a'') \<longrightarrow>
      get_nested_value ?flat (''a'' @ ''.'' @ ''b'') = JNull"
    by blast
  then have 2: "get_nested_value ?flat ''a.b'' = JNull"
    unfolding 1 by simp
  from get_nested_value_absent [where key = "''a''" and v = ?nested] k(1)
  have 3: "get_nested_value ?nested ''a'' = JDict [(''b'', JInt 2)]" by simp
  from get_nested_value_absent [where key = "''b''" and v = "JDict [(''b'', JInt 2)]"] k(2)
  have 4: "get_nested_value (JDict [(''b'', JInt 2)]) ''b'' = JInt 2" by simp
  from get_nested_value_absent [where v = ?nested and path = "''a''" and rest = "''b''"]
  have "get_nested_value ?nested (''a'' @ ''.'' @ ''b'') = get_nested_value (get_nested_value ?nested ''a'') ''b''"
    by blast
  then have 5: "get_nested_value ?nested ''a.b'' = JInt 2"
    unfolding 3 4 by simp
  from get_nested_value_absent [where v = "JStr ''x''" and path = "''personal_info.last_name''"]
  have "\<not> is_dict (JStr ''x'') \<longrightarrow> get_nested_value (JStr ''x'') ''personal_info.last_name'' = JNull"
    by blast
  then have 6: "get_nested_value (JStr ''x'') ''personal_info.last_name'' = JNull" by simp
  from 1 2 5 6 show ?thesis by blast
qed

subsection \<open>The missing processing-type group\<close>

lemma no_processing_type: "map_of (checkbox_mappings LAYOUT) ''processing_type'' = None"
  by (simp add: LAYOUT_def CHECKBOX_MAPPINGS_def)

lemma processing_type_block_raises:
  "\<exists>e. processing_type_block LAYOUT page app_type = Inl e"
  by (auto simp: processing_type_block_def bind_res_def mark_group_def no_processing_type
           split: sum.splits)

lemma fill_checkboxes_raises: "\<exists>e. fill_checkboxes page data = Inl e"
proof -
  have "\<exists>e. bind_res (processing_type_block LAYOUT p a) f = Inl e" for p a and f :: "page \<Rightarrow> error + page"
    using processing_type_block_raises [of p a] by (auto simp: bind_res_def)
  then show ?thesis
    unfolding fill_checkboxes_def fill_checkboxes_in_def
    by (auto simp: bind_res_def split: sum.splits)
qed

lemma fill_checkboxes_empty_record:
  "fill_checkboxes page (JDict []) = Inl (KeyError ''processing_type'')"
  by (simp add: fill_checkboxes_def fill_checkboxes_in_def bind_res_def applicant_category_block_def
        processing_type_block_def mark_group_def no_processing_type str_lower_def LAYOUT_def CHECKBOX_MAPPINGS_def)

text \<open>
  Claim C1 (a defect of the code). The claim: with a template that opens,
  \<^verbatim>\<open>generate_filled_pdf_bytes\<close> raises nothing. The code: \<^verbatim>\<open>fill_checkboxes\<close> reads
  \<^verbatim>\<open>CHECKBOX_MAPPINGS["processing_type"]\<close>, a group the table does not have, so the empty
  record ends in \<^verbatim>\<open>KeyError\<close>; a record whose \<^verbatim>\<open>application_type\<close> is a string ends in
  \<^verbatim>\<open>AttributeError\<close>; and no record and no template at all lead to a returned document.
\<close>

theorem generate_filled_pdf_bytes_raises:
  "generate_filled_pdf_bytes one_page (JDict []) ''PASSPORT-DIV-APP-FORM-2025.pdf''
     = (Opened, Inl (KeyError ''processing_type''))
   \<and> generate_filled_pdf_bytes one_page (JDict [(''application_type'', JStr ''renewal'')])
       ''PASSPORT-DIV-APP-FORM-2025.pdf'' = (Opened, Inl AttributeError)
   \<and> (\<exists>e. snd (generate_filled_pdf_bytes files data template_path) = Inl e)"
proof -
  have 1: "generate_filled_pdf_bytes one_page (JDict []) ''PASSPORT-DIV-APP-FORM-2025.pdf''
     = (Opened, Inl (KeyError ''processing_type''))"
    using fill_checkboxes_empty_record [of "[]"]
    by (simp add: generate_filled_pdf_bytes_def generate_filled_pdf_bytes_in_def one_page_def
          fill_checkboxes_def)
  have 2: "generate_filled_pdf_bytes one_page (JDict [(''application_type'', JStr ''renewal'')])
       ''PASSPORT-DIV-APP-FORM-2025.pdf'' = (Opened, Inl AttributeError)"
    by (simp add: generate_filled_pdf_bytes_def generate_filled_pdf_bytes_in_def one_page_def
          fill_checkboxes_in_def bind_res_def applicant_category_block_def)
  have 3: "\<exists>e. snd (generate_filled_pdf_bytes files data template_path) = Inl e"
  proof (cases "files template_path")
    case None
    then show ?thesis
      by (simp add: generate_filled_pdf_bytes_def generate_filled_pdf_bytes_in_def)
  next
    case (Some doc)
    show ?thesis
    proof (cases doc)
      case Nil
      with Some show ?thesis
        by (simp add: generate_filled_pdf_bytes_def generate_filled_pdf_bytes_in_def)
    next
      case (Cons page rest)
      from fill_checkboxes_raises [of page data] obtain e where "fill_checkboxes_in LAYOUT page data = Inl e"
        by (auto simp: fill_checkboxes_def)
      with Some Cons show ?thesis
        by (simp add: generate_filled_pdf_bytes_def generate_filled_pdf_bytes_in_def)
    qed
  qed
  from 1 2 3 show ?thesis by blast
qed

text \<open>
  Claim C4 (a defect of the code). The claim: each yes/no group gets its yes or its no
  mark. The code: \<^verbatim>\<open>fill_checkboxes\<close> leaves with \<^verbatim>\<open>KeyError\<close> at the processing-type lookup,
  before the first yes/no group, whether the flags are absent or set.
\<close>

theorem fill_checkboxes_marks_no_binary_group:
  "fill_checkboxes page (JDict []) = Inl (KeyError ''processing_type'')
   \<and> fill_checkboxes page (JDict [(''citizenship_info'',
        JDict [(''foreign_military'', JDict [(''served'', JBool True)])])])
      = Inl (KeyError ''processing_type'')"
  by (simp add: fill_checkboxes_def fill_checkboxes_in_def bind_res_def applicant_category_block_def
        processing_type_block_def mark_group_def no_processing_type str_lower_def LAYOUT_def CHECKBOX_MAPPINGS_def)

subsection \<open>The template handle\<close>

text \<open>
  Claim C9, as stated, fails: the template opens, \<^verbatim>\<open>fill_checkboxes\<close> raises on a record whose
  \<^verbatim>\<open>application_type\<close> is a string, and the call ends with the handle still open.
\<close>

theorem handle_left_open_counterexample:
  "one_page ''PASSPORT-DIV-APP-FORM-2025.pdf'' \<noteq> None
   \<and> fst (generate_filled_pdf_bytes one_page (JDict [(''application_type'', JStr ''renewal'')])
           ''PASSPORT-DIV-APP-FORM-2025.pdf'') \<noteq> Closed"
  by (simp add: generate_filled_pdf_bytes_def generate_filled_pdf_bytes_in_def one_page_def
        fill_checkboxes_in_def bind_res_def applicant_category_block_def)

text \<open>
  Claim C9, amended. \<^verbatim>\<open>doc.close()\<close> is the one statement that closes the handle, and it
  stands after the two passes and the serialisation, outside any \<^verbatim>\<open>finally\<close>. So for every
  schema, record and template that opens: the handle is closed when the call ends if the
  template has a first page and the checkbox pass returns, and is still open if the call is
  left by an error before that.
\<close>

theorem handle_closed_iff_rendered:
  "files template_path = Some doc \<Longrightarrow>
   fst (generate_filled_pdf_bytes_in sch files data template_path) =
     (if (case doc of [] \<Rightarrow> False | page # rest \<Rightarrow> \<not> isl (fill_checkboxes_in sch page data))
      then Closed else Opened)"
  by (auto simp: generate_filled_pdf_bytes_in_def Let_def split: list.splits sum.splits)

lemma fill_checkboxes_in_repaired_empty:
  "fill_checkboxes_in (with_processing_type LAYOUT []) [] (JDict []) =
     Inr [\<lparr>st_at = (193, 416), st_text = ''X'', st_font = ''helv'', st_size = 10\<rparr>,
          \<lparr>st_at = (438, 413), st_text = ''X'', st_font = ''helv'', st_size = 10\<rparr>,
          \<lparr>st_at = (465, 439), st_text = ''X'', st_font = ''helv'', st_size = 10\<rparr>,
          \<lparr>st_at = (194, 459), st_text = ''X'', st_font = ''helv'', st_size = 10\<rparr>,
          \<lparr>st_at = (468, 454), st_text = ''X'', st_font = ''helv'', st_size = 10\<rparr>]"
  by (simp add: fill_checkboxes_in_def bind_res_def applicant_category_block_def
        processing_type_block_def sex_block_def civil_status_block_def acquired_by_block_def
        foreign_citizenship_block_def foreign_military_block_def renounced_block_def
        foreign_passport_block_def ph_passport_block_def
        mark_group_def mark_field_def insert_checkbox_def with_processing_type_def
        str_lower_def replace_space_def LAYOUT_def CHECKBOX_MAPPINGS_def FIELD_COORDINATES_def
        CHECKBOX_CHAR_def FONT_NAME_def CHECKBOX_FONT_SIZE_def)

theorem handle_closed_iff_rendered_witness:
  "one_page ''form.pdf'' = Some [[]]
   \<and> fst (generate_filled_pdf_bytes_in (with_processing_type LAYOUT []) one_page (JDict []) ''form.pdf'') = Closed
   \<and> fst (generate_filled_pdf_bytes_in LAYOUT one_page (JDict []) ''form.pdf'') = Opened"
proof -
  have h: "one_page ''form.pdf'' = Some [[]]" by (simp add: one_page_def)
  have a: "\<not> isl (fill_checkboxes_in (with_processing_type LAYOUT []) [] (JDict []))"
    by (simp add: fill_checkboxes_in_repaired_empty)
  have b: "isl (fill_checkboxes_in LAYOUT [] (JDict []))"
    using fill_checkboxes_empty_record [of "[]"] by (simp add: fill_checkboxes_def)
  from handle_closed_iff_rendered [where files = one_page and template_path = "''form.pdf''"
      and doc = "[[]]" and sch = "with_processing_type LAYOUT []" and data = "JDict []"] h a
  have 1: "fst (generate_filled_pdf_bytes_in (with_processing_type LAYOUT []) one_page (JDict []) ''form.pdf'') = Closed"
    by simp
  from handle_closed_iff_rendered [where files = one_page and template_path = "''form.pdf''"
      and doc = "[[]]" and sch = LAYOUT and data = "JDict []"] h b
  have 2: "fst (generate_filled_pdf_bytes_in LAYOUT one_page (JDict []) ''form.pdf'') = Opened"
    by simp
  from h 1 2 show ?thesis by blast
qed

subsection \<open>Normalisation of group values\<close>

lemma str_lower_examples:
  "str_lower ''Legally Separated'' = ''legally separated''"
  "str_lower ''R.A. 9225'' = ''r.a. 9225''"
  "str_lower '' male'' = '' male''"
  by (simp_all add: str_lower_def lower_char_def char_of_eq_code)

lemma spec_normalize_examples:
  "spec_normalize '' male'' = ''male''"
  "spec_normalize ''R.A. 9225'' = ''r.a._9225''"
  by (simp_all add: spec_normalize_def str_lower_examples str_strip_def is_space_def replace_space_def)

lemma layout_tables:
  "field_coordinates LAYOUT = FIELD_COORDINATES"
  "checkbox_mappings LAYOUT = CHECKBOX_MAPPINGS"
  "text_field_mappings LAYOUT = TEXT_FIELD_MAPPINGS"
  by (simp_all add: LAYOUT_def)

lemma mark_group_sex_examples:
  "mark_group LAYOUT ''sex'' '' male'' page = Inr page"
  "mark_group LAYOUT ''sex'' ''male'' page =
     Inr (page @ [\<lparr>st_at = (407, 254), st_text = ''X'', st_font = ''helv'', st_size = 10\<rparr>])"
  by (simp_all add: mark_group_def mark_field_def insert_checkbox_def layout_tables
        CHECKBOX_MAPPINGS_def FIELD_COORDINATES_def CHECKBOX_CHAR_def FONT_NAME_def CHECKBOX_FONT_SIZE_def)

lemma mark_group_acquired_by_examples:
  "mark_group LAYOUT ''acquired_by'' ''r.a._9225'' page = Inr page"
  "mark_group LAYOUT ''acquired_by'' ''r.a. 9225'' page =
     Inr (page @ [\<lparr>st_at = (337, 395), st_text = ''X'', st_font = ''helv'', st_size = 10\<rparr>])"
  by (simp_all add: mark_group_def mark_field_def insert_checkbox_def layout_tables
        CHECKBOX_MAPPINGS_def FIELD_COORDINATES_def CHECKBOX_CHAR_def FONT_NAME_def CHECKBOX_FONT_SIZE_def)

lemma mark_group_legally_separated:
  "mark_group LAYOUT ''civil_status'' ''legally_separated'' page =
     Inr (page @ [\<lparr>st_at = (342, 303), st_text = ''X'', st_font = ''helv'', st_size = 10\<rparr>])"
  by (simp add: mark_group_def mark_field_def insert_checkbox_def layout_tables
        CHECKBOX_MAPPINGS_def FIELD_COORDINATES_def CHECKBOX_CHAR_def FONT_NAME_def CHECKBOX_FONT_SIZE_def)

text \<open>
  Claim C3, as stated, fails. With the normalisation of the claim (lowercase, trim, spaces to
  underscores) the value \<^verbatim>\<open>" male"\<close> would select the field of \<^verbatim>\<open>male\<close>, and \<^verbatim>\<open>"R.A. 9225"\<close> would
  select nothing; the blocks of \<^verbatim>\<open>fill_checkboxes\<close> do the opposite in both cases.
\<close>

theorem spec_normalize_counterexample:
  "sex_block LAYOUT [] (JDict [(''sex'', JStr '' male'')])
     \<noteq> mark_group LAYOUT ''sex'' (spec_normalize '' male'') []
   \<and> acquired_by_block LAYOUT [] (JDict [(''acquired_by'', JStr ''R.A. 9225'')])
     \<noteq> mark_group LAYOUT ''acquired_by'' (spec_normalize ''R.A. 9225'') []"
  by (simp add: sex_block_def acquired_by_block_def bind_res_def str_lower_examples
        spec_normalize_examples mark_group_sex_examples mark_group_acquired_by_examples)

text \<open>
  Claim C3, amended. Each block of \<^verbatim>\<open>fill_checkboxes\<close> looks its group value up after
  \<^verbatim>\<open>lower()\<close> alone; nothing is trimmed; only the civil-status block also turns every space
  into an underscore. So the civil-status block marks, for \<^verbatim>\<open>"Legally Separated"\<close>, the field
  mapped from \<^verbatim>\<open>legally_separated\<close> and nothing else (the five civil-status fields lie at five
  different points), \<^verbatim>\<open>" male"\<close> marks nothing, and \<^verbatim>\<open>"R.A. 9225"\<close> marks the field of
  \<^verbatim>\<open>r.a. 9225\<close>. The mode of foreign citizenship is looked up when the flag
  \<^verbatim>\<open>acquired\<close> is truthy.
\<close>

theorem group_values_lowercased:
  "(map_of kvs ''applicant_category'' = Some (JStr v) \<longrightarrow>
      applicant_category_block sch page (JDict kvs)
        = mark_group sch ''applicant_category'' (str_lower v) page)
   \<and> (map_of kvs ''sex'' = Some (JStr v) \<longrightarrow>
      sex_block sch page (JDict kvs) = mark_group sch ''sex'' (str_lower v) page)
   \<and> (map_of kvs ''civil_status'' = Some (JStr v) \<longrightarrow>
      civil_status_block sch page (JDict kvs)
        = mark_group sch ''civil_status'' (replace_space (str_lower v)) page)
   \<and> (map_of kvs ''acquired_by'' = Some (JStr v) \<longrightarrow>
      acquired_by_block sch page (JDict kvs) = mark_group sch ''acquired_by'' (str_lower v) page)
   \<and> (map_of kvs ''foreign_citizenship'' = Some (JDict fc) \<and> map_of fc ''acquired'' = Some a
        \<and> py_truthy a \<and> map_of fc ''mode'' = Some (JStr v) \<longrightarrow>
      foreign_citizenship_block sch page (JDict kvs)
        = mark_group sch ''foreign_citizenship_mode'' (str_lower v)
            (mark_field sch ''checkbox_foreign_citizenship_yes'' page))
   \<and> civil_status_block LAYOUT page (JDict [(''civil_status'', JStr ''Legally Separated'')])
        = Inr (page @ [\<lparr>st_at = (342, 303), st_text = ''X'', st_font = ''helv'', st_size = 10\<rparr>])
   \<and> map (map_of FIELD_COORDINATES) [''checkbox_single'', ''checkbox_married'', ''checkbox_widow'',
          ''checkbox_legally_separated'', ''checkbox_annulled'']
        = [Some (110, 303), Some (182, 303), Some (259, 303), Some (342, 303), Some (454, 303)]
   \<and> sex_block LAYOUT page (JDict [(''sex'', JStr '' male'')]) = Inr page
   \<and> acquired_by_block LAYOUT page (JDict [(''acquired_by'', JStr ''R.A. 9225'')])
        = Inr (page @ [\<lparr>st_at = (337, 395), st_text = ''X'', st_font = ''helv'', st_size = 10\<rparr>])"
proof -
  have ls: "replace_space ''legally separated'' = ''legally_separated''"
    by (simp add: replace_space_def)
  have coords: "map_of FIELD_COORDINATES ''checkbox_single'' = Some (110, 303)"
    "map_of FIELD_COORDINATES ''checkbox_married'' = Some (182, 303)"
    "map_of FIELD_COORDINATES ''checkbox_widow'' = Some (259, 303)"
    "map_of FIELD_COORDINATES ''checkbox_legally_separated'' = Some (342, 303)"
    "map_of FIELD_COORDINATES ''checkbox_annulled'' = Some (454, 303)"
    by (simp_all add: FIELD_COORDINATES_def)
  show ?thesis
    by (simp add: applicant_category_block_def sex_block_def civil_status_block_def
          acquired_by_block_def foreign_citizenship_block_def bind_res_def str_lower_examples ls
          mark_group_sex_examples mark_group_acquired_by_examples mark_group_legally_separated coords)
qed

theorem group_values_lowercased_witness:
  "sex_block LAYOUT [] (JDict [(''sex'', JStr ''FEMALE'')])
     = Inr [\<lparr>st_at = (447, 254), st_text = ''X'', st_font = ''helv'', st_size = 10\<rparr>]
   \<and> civil_status_block LAYOUT [] (JDict [(''civil_status'', JStr ''Widow'')])
     = Inr [\<lparr>st_at = (259, 303), st_text = ''X'', st_font = ''helv'', st_size = 10\<rparr>]
   \<and> foreign_citizenship_block LAYOUT []
       (JDict [(''foreign_citizenship'', JDict [(''acquired'', JBool True), (''mode'', JStr ''Birth'')])])
     = Inr [\<lparr>st_at = (170, 416), st_text = ''X'', st_font = ''helv'', st_size = 10\<rparr>,
            \<lparr>st_at = (95, 435), st_text = ''X'', st_font = ''helv'', st_size = 10\<rparr>]"
proof -
  have l: "str_lower ''FEMALE'' = ''female''" "str_lower ''Widow'' = ''widow''"
    "str_lower ''Birth'' = ''birth''"
    by (simp_all add: str_lower_def lower_char_def char_of_eq_code)
  have m: "mark_group LAYOUT ''sex'' ''female'' [] =
       Inr [\<lparr>st_at = (447, 254), st_text = ''X'', st_font = ''helv'', st_size = 10\<rparr>]"
    "mark_group LAYOUT ''civil_status'' ''widow'' [] =
       Inr [\<lparr>st_at = (259, 303), st_text = ''X'', st_font = ''helv'', st_size = 10\<rparr>]"
    "mark_group LAYOUT ''foreign_citizenship_mode'' ''birth''
        (mark_field LAYOUT ''checkbox_foreign_citizenship_yes'' []) =
       Inr [\<lparr>st_at = (170, 416), st_text = ''X'', st_font = ''helv'', st_size = 10\<rparr>,
            \<lparr>st_at = (95, 435), st_text = ''X'', st_font = ''helv'', st_size = 10\<rparr>]"
    by (simp_all add: mark_group_def mark_field_def insert_checkbox_def layout_tables
        CHECKBOX_MAPPINGS_def FIELD_COORDINATES_def CHECKBOX_CHAR_def FONT_NAME_def CHECKBOX_FONT_SIZE_def)
  have r: "replace_space ''widow'' = ''widow''" by (simp add: replace_space_def)
  have 1: "map_of [(''sex'', JStr ''FEMALE'')] ''sex'' = Some (JStr ''FEMALE'')" by simp
  have 2: "map_of [(''civil_status'', JStr ''Widow'')] ''civil_status'' = Some (JStr ''Widow'')" by simp
  let ?fc = "[(''acquired'', JBool True), (''mode'', JStr ''Birth'')]"
  have 3: "map_of [(''foreign_citizenship'', JDict ?fc)] ''foreign_citizenship'' = Some (JDict ?fc)
     \<and> map_of ?fc ''acquired'' = Some (JBool True) \<and> py_truthy (JBool True)
     \<and> map_of ?fc ''mode'' = Some (JStr ''Birth'')" by simp
  from group_values_lowercased [where kvs = "[(''sex'', JStr ''FEMALE'')]" and v = "''FEMALE''"
      and sch = LAYOUT and page = "[]"] 1
  have a: "sex_block LAYOUT [] (JDict [(''sex'', JStr ''FEMALE'')]) = mark_group LAYOUT ''sex'' (str_lower ''FEMALE'') []"
    by blast
  from group_values_lowercased [where kvs = "[(''civil_status'', JStr ''Widow'')]" and v = "''Widow''"
      and sch = LAYOUT and page = "[]"] 2
  have b: "civil_status_block LAYOUT [] (JDict [(''civil_status'', JStr ''Widow'')])
     = mark_group LAYOUT ''civil_status'' (replace_space (str_lower ''Widow'')) []"
    by blast
  from group_values_lowercased [where kvs = "[(''foreign_citizenship'', JDict ?fc)]" and v = "''Birth''"
      and sch = LAYOUT and page = "[]" and fc = ?fc and a = "JBool True"] 3
  have c: "foreign_citizenship_block LAYOUT [] (JDict [(''foreign_citizenship'', JDict ?fc)])
     = mark_group LAYOUT ''foreign_citizenship_mode'' (str_lower ''Birth'')
            (mark_field LAYOUT ''checkbox_foreign_citizenship_yes'' [])"
    by blast
  show ?thesis unfolding a b c l r m by simp
qed

subsection \<open>Scalar fields\<close>

lemma str_strip_nonempty_iff: "str_strip s \<noteq> [] \<longleftrightarrow> (\<exists>c\<in>set s. \<not> is_space c)"
proof -
  have "str_strip s \<noteq> [] \<longleftrightarrow> (\<exists>c\<in>set (dropWhile is_space s). \<not> is_space c)"
    by (simp add: str_strip_def dropWhile_eq_Nil_conv)
  also have "\<dots> \<longleftrightarrow> (\<exists>c\<in>set s. \<not> is_space c)"
  proof
    assume "\<exists>c\<in>set (dropWhile is_space s). \<not> is_space c"
    then show "\<exists>c\<in>set s. \<not> is_space c"
      by (meson set_dropWhileD)
  next
    assume "\<exists>c\<in>set s. \<not> is_space c"
    then have ne: "dropWhile is_space s \<noteq> []"
      by (simp add: dropWhile_eq_Nil_conv)
    then have "\<not> is_space (hd (dropWhile is_space s))"
      by (rule hd_dropWhile)
    with ne show "\<exists>c\<in>set (dropWhile is_space s). \<not> is_space c"
      by (meson hd_in_set)
  qed
  finally show ?thesis .
qed

lemma stamps_at_insert_text:
  "stamps_at (insert_text page x y txt fontsize) c =
     stamps_at page c @
       (if (x, y) = c \<and> str_strip txt \<noteq> []
        then [\<lparr>st_at = (x, y), st_text = txt, st_font = FONT_NAME, st_size = fontsize\<rparr>] else [])"
proof -
  have "str_strip txt \<noteq> [] \<Longrightarrow> txt \<noteq> []"
    by (auto simp: str_strip_def)
  then show ?thesis
    by (auto simp: insert_text_def stamps_at_def)
qed

lemma stamps_at_fill_text_loop:
  "stamps_at (fill_text_loop sch data page items) c =
     stamps_at page c @ concat (map (entry_stamps sch data c) items)"
proof (induction items arbitrary: page)
  case Nil
  then show ?case by simp
next
  case (Cons item items)
  obtain json_path coord_key where item: "item = (json_path, coord_key)"
    by (cases item)
  show ?case
    unfolding item
    by (simp add: Cons.IH Let_def entry_stamps_def stamps_at_insert_text split: option.splits)
qed

lemma entry_stamps_elsewhere:
  "map_of (field_coordinates sch) (snd item) \<noteq> Some c \<Longrightarrow> entry_stamps sch data c item = []"
  by (auto simp: entry_stamps_def Let_def split: option.splits)

lemma entry_stamps_single:
  assumes "distinct (map (\<lambda>i. map_of (field_coordinates sch) (snd i)) items)"
    and "item \<in> set items"
    and "map_of (field_coordinates sch) (snd item) = Some c"
  shows "concat (map (entry_stamps sch data c) items) = entry_stamps sch data c item"
  using assms
proof (induction items)
  case Nil
  then show ?case by simp
next
  case (Cons i items)
  show ?case
  proof (cases "i = item")
    case True
    from Cons.prems(1) True Cons.prems(3)
    have "\<forall>j\<in>set items. map_of (field_coordinates sch) (snd j) \<noteq> Some c"
      by force
    then have "concat (map (entry_stamps sch data c) items) = []"
      by (simp add: entry_stamps_elsewhere)
    with True show ?thesis by simp
  next
    case False
    with Cons.prems have in_rest: "item \<in> set items" by simp
    from Cons.prems(1) in_rest Cons.prems(3)
    have "map_of (field_coordinates sch) (snd i) \<noteq> Some c"
      by force
    then have "entry_stamps sch data c i = []"
      by (rule entry_stamps_elsewhere)
    moreover from Cons.prems(1) have "distinct (map (\<lambda>i. map_of (field_coordinates sch) (snd i)) items)"
      by simp
    ultimately show ?thesis
      using Cons.IH in_rest Cons.prems(3) by simp
  qed
qed

lemma text_fields_coordinates:
  "map (\<lambda>i. map_of FIELD_COORDINATES (snd i)) TEXT_FIELD_MAPPINGS =
     map Some [(35, 180), (315, 180), (35, 214), (315, 214), (45, 253), (100, 253), (165, 253),
       (380, 270), (92, 318), (75, 333), (335, 333), (90, 348), (355, 348), (86, 362), (351, 362),
       (115, 376), (353, 376), (145, 424), (400, 421), (145, 467), (415, 462), (340, 472),
       (470, 472), (115, 633), (155, 642), (170, 652), (420, 633), (340, 642), (480, 642),
       (365, 652)]"
  by (simp add: TEXT_FIELD_MAPPINGS_def FIELD_COORDINATES_def)

lemma text_fields_distinct:
  "distinct (map (\<lambda>i. map_of (field_coordinates LAYOUT) (snd i)) (text_field_mappings LAYOUT))"
  unfolding layout_tables text_fields_coordinates by simp

lemma text_fields_present:
  "item \<in> set TEXT_FIELD_MAPPINGS \<Longrightarrow> \<exists>x y. map_of FIELD_COORDINATES (snd item) = Some (x, y)"
proof -
  assume "item \<in> set TEXT_FIELD_MAPPINGS"
  then have "map_of FIELD_COORDINATES (snd item) \<in> set (map (\<lambda>i. map_of FIELD_COORDINATES (snd i)) TEXT_FIELD_MAPPINGS)"
    unfolding set_map by (rule imageI)
  then show ?thesis
    unfolding text_fields_coordinates by auto
qed

lemma fill_text_fields_at:
  assumes "(json_path, coord_key) \<in> set TEXT_FIELD_MAPPINGS"
  shows "\<exists>x y. map_of FIELD_COORDINATES coord_key = Some (x, y) \<and>
     stamps_at (fill_text_fields page data) (x, y) =
       stamps_at page (x, y) @
         (if py_truthy (get_nested_value data json_path)
             \<and> str_strip (py_str (get_nested_value data json_path)) \<noteq> []
          then [\<lparr>st_at = (x, y), st_text = py_str (get_nested_value data json_path),
                  st_font = FONT_NAME, st_size = FONT_SIZE\<rparr>]
          else [])"
proof -
  from text_fields_present [OF assms] obtain x y
    where xy: "map_of FIELD_COORDINATES coord_key = Some (x, y)" by auto
  have "concat (map (entry_stamps LAYOUT data (x, y)) (text_field_mappings LAYOUT))
      = entry_stamps LAYOUT data (x, y) (json_path, coord_key)"
    by (rule entry_stamps_single [OF text_fields_distinct]) (simp_all add: layout_tables assms xy)
  then have "stamps_at (fill_text_fields page data) (x, y) =
      stamps_at page (x, y) @ entry_stamps LAYOUT data (x, y) (json_path, coord_key)"
    by (simp add: fill_text_fields_def fill_text_fields_in_def stamps_at_fill_text_loop)
  with xy show ?thesis
    by (auto simp: entry_stamps_def layout_tables Let_def)
qed


lemma last_name_entry:
  "(''personal_info.last_name'', ''last_name'') \<in> set TEXT_FIELD_MAPPINGS"
  "map_of FIELD_COORDINATES ''last_name'' = Some (35, 180)"
  by (simp_all add: TEXT_FIELD_MAPPINGS_def FIELD_COORDINATES_def)

lemma not_space_examples:
  "\<not> is_space (CHR ''{'')" "\<not> is_space (CHR ''S'')" "is_space (CHR '' '')"
  by (simp_all add: is_space_def)

lemma py_str_dict_not_blank: "str_strip (py_str (JDict kvs)) \<noteq> []"
  by (simp add: str_strip_nonempty_iff not_space_examples)

text \<open>
  Claim C2, as stated, fails: a path that resolves to a nested mapping is not skipped. With
  \<^verbatim>\<open>last_name\<close> bound to the mapping \<^verbatim>\<open>{"a": "b"}\<close> the pass writes at the point of the last name.
\<close>

theorem nested_mapping_written_counterexample:
  "is_dict (get_nested_value
      (JDict [(''personal_info'', JDict [(''last_name'', JDict [(''a'', JStr ''b'')])])])
      ''personal_info.last_name'')
   \<and> stamps_at (fill_text_fields []
        (JDict [(''personal_info'', JDict [(''last_name'', JDict [(''a'', JStr ''b'')])])]))
        (35, 180) \<noteq> []"
proof -
  let ?data = "JDict [(''personal_info'', JDict [(''last_name'', JDict [(''a'', JStr ''b'')])])]"
  have v: "get_nested_value ?data ''personal_info.last_name'' = JDict [(''a'', JStr ''b'')]"
    by (simp add: get_nested_value_def)
  from fill_text_fields_at [OF last_name_entry(1), of "[]" ?data]
  have "stamps_at (fill_text_fields [] ?data) (35, 180) \<noteq> []"
    unfolding v by (simp add: last_name_entry(2) py_str_dict_not_blank del: py_str.simps)
  with v show ?thesis by simp
qed

text \<open>
  Claim C2, amended. For every item of the text table, \<^verbatim>\<open>fill_text_fields\<close> adds at the item's
  point exactly this: the text \<^verbatim>\<open>str(value)\<close> in Helvetica at size 9 when the resolved value is
  truthy and its text is not blank, and nothing otherwise. \<^verbatim>\<open>None\<close>, the empty string,
  \<^verbatim>\<open>False\<close>, \<^verbatim>\<open>0\<close>, the empty list and the empty mapping are falsy and so are skipped; a mapping
  that is not empty is truthy, its text is not blank, and so it is written.
\<close>

theorem fill_text_fields_writes_truthy:
  "((json_path, coord_key) \<in> set TEXT_FIELD_MAPPINGS \<longrightarrow>
      (\<exists>x y. map_of FIELD_COORDINATES coord_key = Some (x, y) \<and>
         stamps_at (fill_text_fields page data) (x, y) =
           stamps_at page (x, y) @
             (if py_truthy (get_nested_value data json_path)
                 \<and> str_strip (py_str (get_nested_value data json_path)) \<noteq> []
              then [\<lparr>st_at = (x, y), st_text = py_str (get_nested_value data json_path),
                      st_font = ''helv'', st_size = 9\<rparr>]
              else [])))
   \<and> \<not> py_truthy JNull \<and> \<not> py_truthy (JStr []) \<and> \<not> py_truthy (JBool False)
   \<and> \<not> py_truthy (JInt 0) \<and> \<not> py_truthy (JList []) \<and> \<not> py_truthy (JDict [])
   \<and> (kvs \<noteq> [] \<longrightarrow> py_truthy (JDict kvs) \<and> str_strip (py_str (JDict kvs)) \<noteq> [])"
proof -
  have entry: "(json_path, coord_key) \<in> set TEXT_FIELD_MAPPINGS \<longrightarrow>
      (\<exists>x y. map_of FIELD_COORDINATES coord_key = Some (x, y) \<and>
         stamps_at (fill_text_fields page data) (x, y) =
           stamps_at page (x, y) @
             (if py_truthy (get_nested_value data json_path)
                 \<and> str_strip (py_str (get_nested_value data json_path)) \<noteq> []
              then [\<lparr>st_at = (x, y), st_text = py_str (get_nested_value data json_path),
                      st_font = ''helv'', st_size = 9\<rparr>]
              else []))"
    using fill_text_fields_at [of json_path coord_key page data]
    unfolding FONT_NAME_def FONT_SIZE_def by blast
  have falsy: "\<not> py_truthy JNull \<and> \<not> py_truthy (JStr []) \<and> \<not> py_truthy (JBool False)
   \<and> \<not> py_truthy (JInt 0) \<and> \<not> py_truthy (JList []) \<and> \<not> py_truthy (JDict [])"
    by simp
  have mapping: "kvs \<noteq> [] \<longrightarrow> py_truthy (JDict kvs) \<and> str_strip (py_str (JDict kvs)) \<noteq> []"
    using py_str_dict_not_blank [of kvs] by simp
  from entry falsy mapping show ?thesis
    by (intro conjI) (elim conjE, assumption)+
qed

theorem fill_text_fields_writes_truthy_witness:
  "stamps_at (fill_text_fields []
      (JDict [(''personal_info'', JDict [(''last_name'', JStr ''Santos'')])])) (35, 180)
     = [\<lparr>st_at = (35, 180), st_text = ''Santos'', st_font = ''helv'', st_size = 9\<rparr>]
   \<and> py_truthy (JDict [(''a'', JStr ''b'')])
   \<and> str_strip (py_str (JDict [(''a'', JStr ''b'')])) \<noteq> []"
proof -
  let ?data = "JDict [(''personal_info'', JDict [(''last_name'', JStr ''Santos'')])]"
  have v: "get_nested_value ?data ''personal_info.last_name'' = JStr ''Santos''"
    by (simp add: get_nested_value_def)
  have s: "str_strip ''Santos'' \<noteq> []"
    by (simp add: str_strip_nonempty_iff not_space_examples)
  have ne: "[(''a'', JStr ''b'')] \<noteq> []" by simp
  have t: "((''personal_info.last_name'', ''last_name'') \<in> set TEXT_FIELD_MAPPINGS \<longrightarrow>
      (\<exists>x y. map_of FIELD_COORDINATES ''last_name'' = Some (x, y) \<and>
         stamps_at (fill_text_fields [] ?data) (x, y) =
           stamps_at [] (x, y) @
             (if py_truthy (get_nested_value ?data ''personal_info.last_name'')
                 \<and> str_strip (py_str (get_nested_value ?data ''personal_info.last_name'')) \<noteq> []
              then [\<lparr>st_at = (x, y), st_text = py_str (get_nested_value ?data ''personal_info.last_name''),
                      st_font = ''helv'', st_size = 9\<rparr>]
              else [])))
     \<and> ([(''a'', JStr ''b'')] \<noteq> [] \<longrightarrow> py_truthy (JDict [(''a'', JStr ''b'')])
           \<and> str_strip (py_str (JDict [(''a'', JStr ''b'')])) \<noteq> [])"
    using fill_text_fields_writes_truthy [of "''personal_info.last_name''" "''last_name''" "[]" ?data
        "[(''a'', JStr ''b'')]"]
    by blast
  from t last_name_entry(1) obtain x y where
    xy: "map_of FIELD_COORDINATES ''last_name'' = Some (x, y)"
    and st: "stamps_at (fill_text_fields [] ?data) (x, y) =
           stamps_at [] (x, y) @
             (if py_truthy (get_nested_value ?data ''personal_info.last_name'')
                 \<and> str_strip (py_str (get_nested_value ?data ''personal_info.last_name'')) \<noteq> []
              then [\<lparr>st_at = (x, y), st_text = py_str (get_nested_value ?data ''personal_info.last_name''),
                      st_font = ''helv'', st_size = 9\<rparr>]
              else [])"
    by blast
  from xy have "x = 35" "y = 180" by (simp_all add: last_name_entry(2))
  with st have 1: "stamps_at (fill_text_fields [] ?data) (35, 180)
     = [\<lparr>st_at = (35, 180), st_text = ''Santos'', st_font = ''helv'', st_size = 9\<rparr>]"
    unfolding v by (simp add: s stamps_at_def)
  from t ne have 2: "py_truthy (JDict [(''a'', JStr ''b'')])
     \<and> str_strip (py_str (JDict [(''a'', JStr ''b'')])) \<noteq> []"
    by blast
  from 1 2 show ?thesis by blast
qed

subsection \<open>Blank text\<close>

lemma first_name_entry:
  "(''personal_info.first_name'', ''first_name'') \<in> set TEXT_FIELD_MAPPINGS"
  "map_of FIELD_COORDINATES ''first_name'' = Some (315, 180)"
  by (simp_all add: TEXT_FIELD_MAPPINGS_def FIELD_COORDINATES_def)

text \<open>
  Claim C10. \<^verbatim>\<open>insert_text\<close> draws nothing when every character of the text is white space,
  and so \<^verbatim>\<open>fill_text_fields\<close> leaves the point of a field untouched when the text of its value
  is blank, although a string of one space is truthy.
\<close>

theorem blank_text_skipped:
  "((\<forall>c\<in>set txt. is_space c) \<longrightarrow> insert_text page x y txt fontsize = page)
   \<and> ((json_path, coord_key) \<in> set TEXT_FIELD_MAPPINGS
        \<and> (\<forall>c\<in>set (py_str (get_nested_value data json_path)). is_space c) \<longrightarrow>
      (\<exists>x y. map_of FIELD_COORDINATES coord_key = Some (x, y) \<and>
         stamps_at (fill_text_fields page data) (x, y) = stamps_at page (x, y)))
   \<and> py_truthy (JStr '' '')"
proof -
  have 1: "insert_text page x y txt fontsize = page" if "\<forall>c\<in>set txt. is_space c"
  proof -
    from that have "str_strip txt = []"
      using str_strip_nonempty_iff [of "txt"] by blast
    then show ?thesis by (simp add: insert_text_def)
  qed
  have 2: "\<exists>x y. map_of FIELD_COORDINATES coord_key = Some (x, y) \<and>
         stamps_at (fill_text_fields page data) (x, y) = stamps_at page (x, y)"
    if e: "(json_path, coord_key) \<in> set TEXT_FIELD_MAPPINGS"
      and b: "\<forall>c\<in>set (py_str (get_nested_value data json_path)). is_space c"
  proof -
    from b have "str_strip (py_str (get_nested_value data json_path)) = []"
      using str_strip_nonempty_iff [of "py_str (get_nested_value data json_path)"] by blast
    with fill_text_fields_at [OF e, of page data] show ?thesis
      by auto
  qed
  from 1 2 show ?thesis by simp
qed

theorem blank_text_skipped_witness:
  "insert_text [] 315 180 ''  '' 9 = []
   \<and> stamps_at (fill_text_fields []
        (JDict [(''personal_info'', JDict [(''first_name'', JStr '' '')])])) (315, 180) = []"
proof -
  let ?data = "JDict [(''personal_info'', JDict [(''first_name'', JStr '' '')])]"
  have v: "get_nested_value ?data ''personal_info.first_name'' = JStr '' ''"
    by (simp add: get_nested_value_def)
  have a: "\<forall>c\<in>set ''  ''. is_space c" by (simp add: not_space_examples)
  have b: "\<forall>c\<in>set (py_str (get_nested_value ?data ''personal_info.first_name'')). is_space c"
    unfolding v by (simp add: not_space_examples)
  have t: "((\<forall>c\<in>set ''  ''. is_space c) \<longrightarrow> insert_text [] 315 180 ''  '' 9 = [])
   \<and> ((''personal_info.first_name'', ''first_name'') \<in> set TEXT_FIELD_MAPPINGS
        \<and> (\<forall>c\<in>set (py_str (get_nested_value ?data ''personal_info.first_name'')). is_space c) \<longrightarrow>
      (\<exists>x y. map_of FIELD_COORDINATES ''first_name'' = Some (x, y) \<and>
         stamps_at (fill_text_fields [] ?data) (x, y) = stamps_at [] (x, y)))"
    using blank_text_skipped [of "''  ''" "[]" 315 180 9 "''personal_info.first_name''" "''first_name''" ?data]
    by blast
  from t a have 1: "insert_text [] 315 180 ''  '' 9 = []" by blast
  from t first_name_entry(1) b obtain x y where
    xy: "map_of FIELD_COORDINATES ''first_name'' = Some (x, y)"
    and st: "stamps_at (fill_text_fields [] ?data) (x, y) = stamps_at [] (x, y)"
    by blast
  from xy have "x = 315" "y = 180" by (simp_all add: first_name_entry(2))
  with st have 2: "stamps_at (fill_text_fields [] ?data) (315, 180) = []"
    by (simp add: stamps_at_def)
  from 1 2 show ?thesis by blast
qed

end
